theory Spec2Isabelle
  imports Complex_Main "HOL-Library.Multiset" "HOL-Library.AList"
begin

section \<open>Go values used by the speed tester\<close>

text \<open>
  \<open>time.Duration\<close> is an \<open>int64\<close> count of nanoseconds, byte counts are \<open>int64\<close>, and the
  configuration sizes are Go \<open>int\<close>. They are modelled as \<open>int\<close>: the program only adds up a
  handful of per-request byte counts and durations, far below \<open>2^63\<close>. Integer division
  truncates towards zero and panics on a zero divisor, so it returns a sum type.
\<close>

type_synonym Duration = int

datatype panic = DivideByZero | ChanSizeOutOfRange

definition tdiv :: "int \<Rightarrow> int \<Rightarrow> int" where
  "tdiv a b = sgn a * sgn b * (\<bar>a\<bar> div \<bar>b\<bar>)"

definition idiv :: "int \<Rightarrow> int \<Rightarrow> panic + int" where
  "idiv a b = (if b = 0 then Inl DivideByZero else Inr (tdiv a b))"

text \<open>
  \<open>float64\<close>: the finite values are idealised as exact reals (rounding is not modelled),
  the special values of IEEE 754 are kept, because Go's float division by zero does not
  panic but yields an infinity or NaN, and every comparison with NaN is false. Signed zeros
  are not distinguished: the only divisors of the program are \<open>6.0\<close>, a positive length and
  \<open>Duration.Seconds()\<close>, none of which is a negative zero.
\<close>

datatype float64 = Fin real | PInf | NInf | NaN

definition f64_of_int :: "int \<Rightarrow> float64" where
  "f64_of_int i = Fin (of_int i)"

fun fdiv :: "float64 \<Rightarrow> float64 \<Rightarrow> float64" where
  "fdiv NaN y = NaN"
| "fdiv x NaN = NaN"
| "fdiv (Fin a) (Fin b) =
     (if b = 0 then (if a = 0 then NaN else if 0 < a then PInf else NInf) else Fin (a / b))"
| "fdiv (Fin a) PInf = Fin 0"
| "fdiv (Fin a) NInf = Fin 0"
| "fdiv PInf (Fin b) = (if 0 \<le> b then PInf else NInf)"
| "fdiv NInf (Fin b) = (if 0 \<le> b then NInf else PInf)"
| "fdiv PInf y = NaN"
| "fdiv NInf y = NaN"

fun fmul :: "float64 \<Rightarrow> float64 \<Rightarrow> float64" where
  "fmul NaN y = NaN"
| "fmul x NaN = NaN"
| "fmul (Fin a) (Fin b) = Fin (a * b)"
| "fmul (Fin a) PInf = (if a = 0 then NaN else if 0 < a then PInf else NInf)"
| "fmul (Fin a) NInf = (if a = 0 then NaN else if 0 < a then NInf else PInf)"
| "fmul PInf (Fin b) = (if b = 0 then NaN else if 0 < b then PInf else NInf)"
| "fmul NInf (Fin b) = (if b = 0 then NaN else if 0 < b then NInf else PInf)"
| "fmul PInf PInf = PInf"
| "fmul PInf NInf = NInf"
| "fmul NInf PInf = NInf"
| "fmul NInf NInf = PInf"

fun fadd :: "float64 \<Rightarrow> float64 \<Rightarrow> float64" where
  "fadd NaN y = NaN"
| "fadd x NaN = NaN"
| "fadd (Fin a) (Fin b) = Fin (a + b)"
| "fadd PInf NInf = NaN"
| "fadd NInf PInf = NaN"
| "fadd PInf y = PInf"
| "fadd NInf y = NInf"
| "fadd x PInf = PInf"
| "fadd x NInf = NInf"

fun fsqrt :: "float64 \<Rightarrow> float64" where
  "fsqrt (Fin a) = (if a < 0 then NaN else Fin (sqrt a))"
| "fsqrt PInf = PInf"
| "fsqrt NInf = NaN"
| "fsqrt NaN = NaN"

text \<open>\<open>x >= y\<close>, \<open>x > y\<close> and \<open>x == y\<close> on \<open>float64\<close>.\<close>

fun fge :: "float64 \<Rightarrow> float64 \<Rightarrow> bool" where
  "fge NaN y = False"
| "fge x NaN = False"
| "fge (Fin a) (Fin b) = (b \<le> a)"
| "fge PInf y = True"
| "fge x NInf = True"
| "fge (Fin a) PInf = False"
| "fge NInf y = False"

fun fgt :: "float64 \<Rightarrow> float64 \<Rightarrow> bool" where
  "fgt NaN y = False"
| "fgt x NaN = False"
| "fgt (Fin a) (Fin b) = (b < a)"
| "fgt PInf PInf = False"
| "fgt PInf y = True"
| "fgt NInf y = False"
| "fgt (Fin a) PInf = False"
| "fgt (Fin a) NInf = True"

fun feq :: "float64 \<Rightarrow> float64 \<Rightarrow> bool" where
  "feq NaN y = False"
| "feq x NaN = False"
| "feq x y = (x = y)"

text \<open>
  \<open>time.Duration(f)\<close> for a \<open>float64\<close>: the fraction is discarded. Outside the range of
  \<open>int64\<close> (and for NaN) Go leaves the result to the implementation; amd64 gives \<open>-2^63\<close>.
\<close>

definition Duration_of_f64 :: "float64 \<Rightarrow> Duration" where
  "Duration_of_f64 f =
     (case f of
        Fin x \<Rightarrow>
          (let t = (if 0 \<le> x then \<lfloor>x\<rfloor> else \<lceil>x\<rceil>)
           in if - (2 ^ 63) \<le> t \<and> t < 2 ^ 63 then t else - (2 ^ 63))
      | PInf \<Rightarrow> - (2 ^ 63)
      | NInf \<Rightarrow> - (2 ^ 63)
      | NaN \<Rightarrow> - (2 ^ 63))"

text \<open>\<open>Duration.Seconds()\<close>: the duration as a floating-point number of seconds.\<close>

definition Seconds :: "Duration \<Rightarrow> float64" where
  "Seconds d = Fin (of_int d / 1000000000)"

section \<open>Configuration: \<open>speedtester.Config\<close> and \<open>New\<close>\<close>

text \<open>
  The fields \<open>DownloadSize\<close> and \<open>UploadSize\<close> of \<open>Config\<close> carry the suffix \<open>Cfg\<close>, since
  \<open>Result\<close> has fields of the same names.
\<close>

record Config =
  ConfigPaths :: string
  FilterRegex :: string
  ServerURL :: string
  DownloadSizeCfg :: int
  UploadSizeCfg :: int
  Timeout :: Duration
  Concurrent :: int
  ExtraConnectURL :: "string list"
  ExtraDownloadURL :: string

definition New :: "Config \<Rightarrow> Config" where
  "New config =
     (let config = (if Concurrent config \<le> 0 then config\<lparr>Concurrent := 1\<rparr> else config);
          config = (if DownloadSizeCfg config \<le> 0
                    then config\<lparr>DownloadSizeCfg := 100 * 1024 * 1024\<rparr> else config);
          config = (if UploadSizeCfg config \<le> 0
                    then config\<lparr>UploadSizeCfg := 10 * 1024 * 1024\<rparr> else config)
      in config)"

text \<open>
  The start of the throughput phase of \<open>testProxy\<close>: the buffered channel is made with
  capacity \<open>Concurrent\<close> (a negative capacity panics), then the two chunk sizes are
  computed by integer division.
\<close>

definition chunkSizes :: "Config \<Rightarrow> panic + (int \<times> int)" where
  "chunkSizes config =
     (if Concurrent config < 0 then Inl ChanSizeOutOfRange
      else case idiv (DownloadSizeCfg config) (Concurrent config) of
             Inl e \<Rightarrow> Inl e
           | Inr downloadChunkSize \<Rightarrow>
               (case idiv (UploadSizeCfg config) (Concurrent config) of
                  Inl e \<Rightarrow> Inl e
                | Inr uploadChunkSize \<Rightarrow> Inr (downloadChunkSize, uploadChunkSize)))"

section \<open>The result record and the classification predicates of \<open>main.go\<close>\<close>

text \<open>
  \<open>ProxyConfig\<close> is the raw configuration of the proxy, which the engine only copies; its
  values are kept as strings.
\<close>

record Result =
  ProxyName :: string
  ProxyType :: string
  ProxyConfig :: "(string \<times> string) list"
  Latency :: Duration
  Jitter :: Duration
  PacketLoss :: float64
  DownloadSize :: float64
  DownloadTime :: Duration
  DownloadSpeed :: float64
  UploadSize :: float64
  UploadTime :: Duration
  UploadSpeed :: float64
  ExtraURLConnectivity :: bool
  ExtraURLOpenSpeed :: float64
  ExtraDownloadSpeed :: float64

text \<open>
  The command-line flags the predicates read (package-level variables in \<open>main.go\<close>),
  passed explicitly. The speed thresholds are documented in MB/s.
\<close>

record Flags =
  maxLatency :: Duration
  minSpeed :: float64
  extraConnectURL :: string
  extraDownloadURL :: string
  openSpeedThreshold :: float64
  goodOpenSpeedThreshold :: float64
  goodDownloadSpeedThreshold :: float64

definition isProxyUsable :: "Flags \<Rightarrow> Result \<Rightarrow> bool" where
  "isProxyUsable fl result \<longleftrightarrow>
     (Latency result \<le> maxLatency fl \<or> maxLatency fl = 0) \<and> ExtraURLConnectivity result \<and>
     (fge (ExtraURLOpenSpeed result) (fmul (fmul (openSpeedThreshold fl) (Fin 1024)) (Fin 1024))
        \<or> extraConnectURL fl = '''') \<and>
     fge (DownloadSpeed result) (fmul (fmul (minSpeed fl) (Fin 1024)) (Fin 1024)) \<and>
     (fge (ExtraDownloadSpeed result) (fmul (fmul (minSpeed fl) (Fin 1024)) (Fin 1024))
        \<or> extraDownloadURL fl = '''')"

definition isProxyGood :: "Flags \<Rightarrow> Result \<Rightarrow> bool" where
  "isProxyGood fl result \<longleftrightarrow>
     isProxyUsable fl result \<and> fge (DownloadSpeed result) (goodDownloadSpeedThreshold fl) \<and>
     (fge (ExtraURLOpenSpeed result) (goodOpenSpeedThreshold fl) \<or> extraConnectURL fl = '''') \<and>
     (fge (ExtraDownloadSpeed result) (goodDownloadSpeedThreshold fl) \<or> extraDownloadURL fl = '''')"

text \<open>The second copy of \<open>main.go\<close> (\<open>src/unnamed/part_000\<close>) has no open-speed conjunct.\<close>

definition isProxyGood_part000 :: "Flags \<Rightarrow> Result \<Rightarrow> bool" where
  "isProxyGood_part000 fl result \<longleftrightarrow>
     isProxyUsable fl result \<and> fge (DownloadSpeed result) (goodDownloadSpeedThreshold fl) \<and>
     (fge (ExtraDownloadSpeed result) (goodDownloadSpeedThreshold fl) \<or> extraDownloadURL fl = '''')"

text \<open>The comparator handed to \<open>sort.Slice\<close> in \<open>main\<close>.\<close>

definition less_result :: "Flags \<Rightarrow> Result \<Rightarrow> Result \<Rightarrow> bool" where
  "less_result fl ri rj =
     (if isProxyGood fl ri = isProxyGood fl rj
      then fgt (DownloadSpeed ri) (DownloadSpeed rj)
      else isProxyGood fl ri)"

text \<open>
  The predicates as the specification words them, with every threshold given in MB/s
  converted to bytes per second in the same way.
\<close>

definition bytes_per_second :: "float64 \<Rightarrow> float64" where
  "bytes_per_second mb = fmul mb (Fin (1024 * 1024))"

definition usable_spec :: "Flags \<Rightarrow> Result \<Rightarrow> bool" where
  "usable_spec fl r \<longleftrightarrow>
     (Latency r \<le> maxLatency fl \<or> maxLatency fl = 0) \<and>
     ExtraURLConnectivity r \<and>
     (fge (ExtraURLOpenSpeed r) (bytes_per_second (openSpeedThreshold fl)) \<or> extraConnectURL fl = []) \<and>
     fge (DownloadSpeed r) (bytes_per_second (minSpeed fl)) \<and>
     (fge (ExtraDownloadSpeed r) (bytes_per_second (minSpeed fl)) \<or> extraDownloadURL fl = [])"

definition good_spec :: "Flags \<Rightarrow> Result \<Rightarrow> bool" where
  "good_spec fl r \<longleftrightarrow>
     usable_spec fl r \<and>
     fge (DownloadSpeed r) (bytes_per_second (goodDownloadSpeedThreshold fl)) \<and>
     (fge (ExtraURLOpenSpeed r) (bytes_per_second (goodOpenSpeedThreshold fl)) \<or> extraConnectURL fl = []) \<and>
     (fge (ExtraDownloadSpeed r) (bytes_per_second (goodDownloadSpeedThreshold fl)) \<or> extraDownloadURL fl = [])"

section \<open>The network as the probes observe it\<close>

text \<open>
  A probe is one HTTP request through the proxy's dial capability. The requests the
  program issues are a GET of \<open>ServerURL/__down?bytes=n\<close>, a GET of an arbitrary URL and
  a POST of an \<open>n\<close>-byte body to \<open>ServerURL/__up\<close>. The answer is a failure (\<open>err != nil\<close>)
  or a response, of which the code observes the status code, the clock reading
  \<open>time.Since(start)\<close> taken when the response has arrived, the number of bytes
  transferred (what \<open>io.Copy\<close> returns, or \<open>reader.WrittenBytes()\<close> for an upload) and
  the clock reading taken after the body was copied. \<open>io.Copy\<close> also returns an error,
  set when the body was cut short; it is the fourth field of a response, and the code
  discards it (\<open>downloadBytes, _ := io.Copy(io.Discard, resp.Body)\<close>). The network is a
  function of the requests issued so far and the request made; the list of issued
  requests is the state threaded through the probes.
\<close>

datatype request = GetDown int | GetURL string | PostUp int

datatype response = Failed | Response int Duration int bool Duration

type_synonym world = "request list"

type_synonym network = "request list \<Rightarrow> request \<Rightarrow> response"

definition StatusOK :: int where
  "StatusOK = 200"

record downloadResult =
  bytes :: int
  duration :: Duration

record latencyResult =
  avgLatency :: Duration
  jitter :: Duration
  packetLoss :: float64

section \<open>Statistics: \<open>calculateLatencyStats\<close>\<close>

fun totalLatency :: "Duration list \<Rightarrow> Duration \<Rightarrow> Duration" where
  "totalLatency [] acc = acc"
| "totalLatency (l # ls) acc = totalLatency ls (acc + l)"

fun varianceLoop :: "Duration \<Rightarrow> Duration list \<Rightarrow> float64 \<Rightarrow> float64" where
  "varianceLoop avg [] variance = variance"
| "varianceLoop avg (l # ls) variance =
     (let diff = f64_of_int (l - avg) in varianceLoop avg ls (fadd variance (fmul diff diff)))"

definition calculateLatencyStats :: "Duration list \<Rightarrow> int \<Rightarrow> panic + latencyResult" where
  "calculateLatencyStats latencies failedPings =
     (let result = \<lparr>avgLatency = 0, jitter = 0,
                     packetLoss = fmul (fdiv (f64_of_int failedPings) (Fin 6)) (Fin 100)\<rparr>
      in if length latencies = 0 then Inr result
         else case idiv (totalLatency latencies 0) (int (length latencies)) of
                Inl e \<Rightarrow> Inl e
              | Inr avg \<Rightarrow>
                  (let result = result\<lparr>avgLatency := avg\<rparr>;
                       variance = varianceLoop avg latencies (Fin 0);
                       variance = fdiv variance (f64_of_int (int (length latencies)))
                   in Inr (result\<lparr>jitter := Duration_of_f64 (fsqrt variance)\<rparr>)))"

section \<open>Latency prober: \<open>testLatency\<close>\<close>

text \<open>
  The loop \<open>for i := 0; i < 6; i++\<close>, by the number of iterations left; the state is
  \<open>latencies\<close>, \<open>failedPings\<close> and the requests issued.
\<close>

fun latencyLoop ::
  "network \<Rightarrow> nat \<Rightarrow> Duration list \<times> int \<times> world \<Rightarrow> Duration list \<times> int \<times> world" where
  "latencyLoop net 0 s = s"
| "latencyLoop net (Suc n) (latencies, failedPings, w) =
     (case net w (GetDown 0) of
        Failed \<Rightarrow> latencyLoop net n (latencies, failedPings + 1, w @ [GetDown 0])
      | Response status t nb copyErr t' \<Rightarrow>
          if status = StatusOK
          then latencyLoop net n (latencies @ [t], failedPings, w @ [GetDown 0])
          else latencyLoop net n (latencies, failedPings + 1, w @ [GetDown 0]))"

definition testLatency :: "network \<Rightarrow> world \<Rightarrow> panic + (latencyResult \<times> world)" where
  "testLatency net w =
     (case latencyLoop net 6 ([], 0, w) of
        (latencies, failedPings, w') \<Rightarrow>
          (case calculateLatencyStats latencies failedPings of
             Inl e \<Rightarrow> Inl e
           | Inr r \<Rightarrow> Inr (r, w')))"

section \<open>Transfer prober: \<open>testDownload\<close> and \<open>testUpload\<close>\<close>

definition testDownload :: "network \<Rightarrow> request \<Rightarrow> world \<Rightarrow> downloadResult option \<times> world" where
  "testDownload net rq w =
     (case net w rq of
        Failed \<Rightarrow> (None, w @ [rq])
      | Response status t downloadBytes copyErr t' \<Rightarrow>
          if status \<noteq> StatusOK then (None, w @ [rq])
          else (Some \<lparr>bytes = downloadBytes, duration = t'\<rparr>, w @ [rq]))"

definition testUpload :: "network \<Rightarrow> int \<Rightarrow> world \<Rightarrow> downloadResult option \<times> world" where
  "testUpload net n w =
     (case net w (PostUp n) of
        Failed \<Rightarrow> (None, w @ [PostUp n])
      | Response status t written copyErr t' \<Rightarrow>
          if status \<noteq> StatusOK then (None, w @ [PostUp n])
          else (Some \<lparr>bytes = written, duration = t\<rparr>, w @ [PostUp n]))"

section \<open>Auxiliary reachability prober: \<open>testExtraLatencyAndSpeed\<close>\<close>

text \<open>
  The inner loop over \<open>testTimes = 6\<close> requests to one URL. Its state is \<open>latencies\<close>,
  \<open>failedPings\<close>, \<open>totalDownloadBytes\<close>, \<open>totalDownloadDuration\<close> and the requests issued.
\<close>

fun extraProbeLoop ::
  "network \<Rightarrow> string \<Rightarrow> nat \<Rightarrow> Duration list \<times> int \<times> int \<times> Duration \<times> world
     \<Rightarrow> Duration list \<times> int \<times> int \<times> Duration \<times> world" where
  "extraProbeLoop net url 0 s = s"
| "extraProbeLoop net url (Suc n) (latencies, failedPings, tb, td, w) =
     (case net w (GetURL url) of
        Failed \<Rightarrow> extraProbeLoop net url n (latencies, failedPings + 1, tb, td, w @ [GetURL url])
      | Response status t downloadBytes copyErr t' \<Rightarrow>
          if status = StatusOK
          then extraProbeLoop net url n
                 (latencies @ [t], failedPings, tb + downloadBytes, td + t', w @ [GetURL url])
          else extraProbeLoop net url n (latencies, failedPings + 1, tb, td, w @ [GetURL url]))"

text \<open>
  The outer loop over \<open>ExtraConnectURL\<close>. The map \<open>extraLatencyResult\<close> is an association
  list updated by key. The flag of the result says whether the loop left the function
  through the early \<open>return extraLatencyResult, nil, nil\<close>.
\<close>

fun extraURLLoop ::
  "network \<Rightarrow> string list \<Rightarrow> (string \<times> latencyResult) list \<times> int \<times> Duration \<times> world
     \<Rightarrow> panic + (bool \<times> (string \<times> latencyResult) list \<times> int \<times> Duration \<times> world)" where
  "extraURLLoop net [] (m, tb, td, w) = Inr (False, m, tb, td, w)"
| "extraURLLoop net (url # urls) (m, tb, td, w) =
     (case extraProbeLoop net url 6 ([], 0, tb, td, w) of
        (latencies, failedPings, tb', td', w') \<Rightarrow>
          (case calculateLatencyStats latencies failedPings of
             Inl e \<Rightarrow> Inl e
           | Inr r \<Rightarrow>
               if feq (packetLoss r) (Fin 100)
               then Inr (True, AList.update url r m, tb', td', w')
               else extraURLLoop net urls (AList.update url r m, tb', td', w')))"

definition testExtraLatencyAndSpeed ::
  "Config \<Rightarrow> network \<Rightarrow> world
     \<Rightarrow> panic + (((string \<times> latencyResult) list \<times> downloadResult option \<times> downloadResult option)
                 \<times> world)" where
  "testExtraLatencyAndSpeed config net w =
     (case (if 0 < length (ExtraConnectURL config)
            then extraURLLoop net (ExtraConnectURL config) ([], 0, 0, w)
            else Inr (False, [], 0, 0, w)) of
        Inl e \<Rightarrow> Inl e
      | Inr (returned, extraLatencyResult, tb, td, w') \<Rightarrow>
          if returned then Inr ((extraLatencyResult, None, None), w')
          else
            (let extraOpenResult =
                   (if 0 < length (ExtraConnectURL config) \<and> 0 < tb
                    then Some \<lparr>bytes = tb, duration = td\<rparr> else None)
             in if ExtraDownloadURL config \<noteq> ''''
                then (case testDownload net (GetURL (ExtraDownloadURL config)) w' of
                        (extraDownloadResult, w'') \<Rightarrow>
                          Inr ((extraLatencyResult, extraOpenResult, extraDownloadResult), w''))
                else Inr ((extraLatencyResult, extraOpenResult, None), w')))"

fun anyFullLoss :: "(string \<times> latencyResult) list \<Rightarrow> bool" where
  "anyFullLoss [] = False"
| "anyFullLoss ((url, data) # rest) =
     (if feq (packetLoss data) (Fin 100) then True else anyFullLoss rest)"

definition existConnectivityProblem :: "(string \<times> latencyResult) list \<Rightarrow> bool" where
  "existConnectivityProblem latencyResultMap =
     (if length latencyResultMap = 0 then False else anyFullLoss latencyResultMap)"

section \<open>Concurrent throughput tester and the aggregation in \<open>testProxy\<close>\<close>

text \<open>
  Each of the \<open>Concurrent\<close> goroutines of a phase runs one transfer probe and sends its
  outcome into the phase's channel. The goroutines are run here one after the other; the
  channel's content is the list of outcomes (\<open>None\<close> for \<open>nil\<close>).
\<close>

fun downloadPhase ::
  "network \<Rightarrow> int \<Rightarrow> nat \<Rightarrow> world \<Rightarrow> downloadResult option list \<times> world" where
  "downloadPhase net chunk 0 w = ([], w)"
| "downloadPhase net chunk (Suc n) w =
     (case testDownload net (GetDown chunk) w of
        (dr, w') \<Rightarrow> (case downloadPhase net chunk n w' of (drs, w'') \<Rightarrow> (dr # drs, w'')))"

fun uploadPhase ::
  "network \<Rightarrow> int \<Rightarrow> nat \<Rightarrow> world \<Rightarrow> downloadResult option list \<times> world" where
  "uploadPhase net chunk 0 w = ([], w)"
| "uploadPhase net chunk (Suc n) w =
     (case testUpload net chunk w of
        (ur, w') \<Rightarrow> (case uploadPhase net chunk n w' of (urs, w'') \<Rightarrow> (ur # urs, w'')))"

text \<open>
  The receiving loops: \<open>totalBytes\<close>, \<open>totalTime\<close> and the count of non-\<open>nil\<close> outcomes.
\<close>

fun sumResults ::
  "downloadResult option list \<Rightarrow> int \<times> Duration \<times> int \<Rightarrow> int \<times> Duration \<times> int" where
  "sumResults [] acc = acc"
| "sumResults (None # rs) acc = sumResults rs acc"
| "sumResults (Some dr # rs) (totalBytes, totalTime, n) =
     sumResults rs (totalBytes + bytes dr, totalTime + duration dr, n + 1)"

definition summarise ::
  "Result \<Rightarrow> downloadResult option list \<Rightarrow> downloadResult option list \<Rightarrow> panic + Result" where
  "summarise result downloadResults uploadResults =
     (case sumResults downloadResults (0, 0, 0) of
        (totalDownloadBytes, totalDownloadTime, downloadCount) \<Rightarrow>
     (case sumResults uploadResults (0, 0, 0) of
        (totalUploadBytes, totalUploadTime, uploadCount) \<Rightarrow>
     (case (if 0 < downloadCount
            then (case idiv totalDownloadTime downloadCount of
                    Inl e \<Rightarrow> Inl e
                  | Inr t \<Rightarrow>
                      Inr (result\<lparr>DownloadSize := f64_of_int totalDownloadBytes,
                                  DownloadTime := t,
                                  DownloadSpeed := fdiv (f64_of_int totalDownloadBytes) (Seconds t)\<rparr>))
            else Inr result) of
        Inl e \<Rightarrow> Inl e
      | Inr result \<Rightarrow>
          if 0 < uploadCount
          then (case idiv totalUploadTime uploadCount of
                  Inl e \<Rightarrow> Inl e
                | Inr t \<Rightarrow>
                    Inr (result\<lparr>UploadSize := f64_of_int totalUploadBytes,
                                UploadTime := t,
                                UploadSpeed := fdiv (f64_of_int totalUploadBytes) (Seconds t)\<rparr>))
          else Inr result)))"

section \<open>Result aggregator: \<open>testProxy\<close>\<close>

text \<open>
  \<open>newResult\<close> is the composite literal at the head of \<open>testProxy\<close>: the identity fields
  are set and every other field has its zero value. The proxy's type and configuration
  and the file name taken from \<open>ConfigPaths\<close> are arguments.
\<close>

definition newResult :: "string \<Rightarrow> string \<Rightarrow> string \<Rightarrow> (string \<times> string) list \<Rightarrow> Result" where
  "newResult fileName name ptype pconfig =
     \<lparr>ProxyName = fileName @ ''_'' @ name, ProxyType = ptype, ProxyConfig = pconfig,
      Latency = 0, Jitter = 0, PacketLoss = Fin 0,
      DownloadSize = Fin 0, DownloadTime = 0, DownloadSpeed = Fin 0,
      UploadSize = Fin 0, UploadTime = 0, UploadSpeed = Fin 0,
      ExtraURLConnectivity = False, ExtraURLOpenSpeed = Fin 0, ExtraDownloadSpeed = Fin 0\<rparr>"

definition throughput :: "Config \<Rightarrow> network \<Rightarrow> Result \<Rightarrow> world \<Rightarrow> panic + (Result \<times> world)" where
  "throughput config net result w =
     (case chunkSizes config of
        Inl e \<Rightarrow> Inl e
      | Inr (downloadChunkSize, uploadChunkSize) \<Rightarrow>
          (case downloadPhase net downloadChunkSize (nat (Concurrent config)) w of
             (downloadResults, w') \<Rightarrow>
          (case uploadPhase net uploadChunkSize (nat (Concurrent config)) w' of
             (uploadResults, w'') \<Rightarrow>
          (case summarise result downloadResults uploadResults of
             Inl e \<Rightarrow> Inl e
           | Inr result' \<Rightarrow> Inr (result', w'')))))"

definition testProxy ::
  "Config \<Rightarrow> network \<Rightarrow> string \<Rightarrow> string \<Rightarrow> string \<Rightarrow> (string \<times> string) list \<Rightarrow> world
     \<Rightarrow> panic + (Result \<times> world)" where
  "testProxy config net fileName name ptype pconfig w =
     (case testLatency net w of
        Inl e \<Rightarrow> Inl e
      | Inr (latencyRes, w1) \<Rightarrow>
          (let result = (newResult fileName name ptype pconfig)
                          \<lparr>Latency := avgLatency latencyRes, Jitter := jitter latencyRes,
                           PacketLoss := packetLoss latencyRes\<rparr>
           in if feq (PacketLoss result) (Fin 100) then Inr (result, w1)
              else
                (case testExtraLatencyAndSpeed config net w1 of
                   Inl e \<Rightarrow> Inl e
                 | Inr ((extraLatencyResult, extraOpenResult, extraDownloadResult), w2) \<Rightarrow>
                     if existConnectivityProblem extraLatencyResult
                     then Inr (result\<lparr>ExtraURLConnectivity := False\<rparr>, w2)
                     else
                       (let result = result\<lparr>ExtraURLConnectivity := True\<rparr>;
                            result =
                              (case extraOpenResult of
                                 None \<Rightarrow> result
                               | Some r \<Rightarrow>
                                   result\<lparr>ExtraURLOpenSpeed :=
                                     fdiv (f64_of_int (bytes r)) (Seconds (duration r))\<rparr>);
                            result =
                              (case extraDownloadResult of
                                 None \<Rightarrow> result
                               | Some r \<Rightarrow>
                                   result\<lparr>ExtraDownloadSpeed :=
                                     fdiv (f64_of_int (bytes r)) (Seconds (duration r))\<rparr>)
                        in throughput config net result w2))))"

section \<open>The aggregate speed as the specification words it\<close>

text \<open>
  \<open>totalBytes / (totalTime / successCount)\<close> over the multiset of successful outcomes:
  the total time over the count is a \<open>Duration\<close>, the quotient of two integers.
\<close>

definition successes :: "downloadResult option list \<Rightarrow> downloadResult multiset" where
  "successes rs = mset (List.map_filter id rs)"

definition speed_spec :: "downloadResult multiset \<Rightarrow> float64" where
  "speed_spec S =
     fdiv (f64_of_int (\<Sum>r\<in>#S. bytes r)) (Seconds (tdiv (\<Sum>r\<in>#S. duration r) (int (size S))))"


section \<open>Concrete runs\<close>

text \<open>
  The flag defaults of \<open>main.go\<close> (\<open>-max-latency 800ms\<close>, \<open>-min-speed 0.1\<close>,
  \<open>-open-speed-threshold 0.1\<close>, \<open>-good-open-speed-threshold 0.5\<close>,
  \<open>-good-download-speed-threshold 0.5\<close>, no auxiliary URL).
\<close>

definition defaultFlags :: Flags where
  "defaultFlags =
     \<lparr>maxLatency = 800 * 1000000, minSpeed = Fin (1 / 10), extraConnectURL = '''',
      extraDownloadURL = '''', openSpeedThreshold = Fin (1 / 10),
      goodOpenSpeedThreshold = Fin (1 / 2), goodDownloadSpeedThreshold = Fin (1 / 2)\<rparr>"

text \<open>
  A run with \<open>-download-size 200000 -upload-size 100000 -concurrent 1\<close> through a proxy
  that answers every request to the speed-test server: a latency probe after 100 ms, a
  transfer after one second.
\<close>

definition slowConfig :: Config where
  "slowConfig =
     \<lparr>ConfigPaths = ''nodes.yaml'', FilterRegex = ''.+'',
      ServerURL = ''https://speed.cloudflare.com'',
      DownloadSizeCfg = 200000, UploadSizeCfg = 100000, Timeout = 5 * 1000000000,
      Concurrent = 1, ExtraConnectURL = [], ExtraDownloadURL = ''''\<rparr>"

definition slowNet :: network where
  "slowNet w rq =
     (case rq of
        GetDown n \<Rightarrow> Response 200 100000000 n False 1000000000
      | GetURL u \<Rightarrow> Failed
      | PostUp n \<Rightarrow> Response 200 1000000000 n False 1000000000)"

definition slowResult :: Result where
  "slowResult =
     (newResult ''nodes'' ''hk1'' ''Trojan'' [])
       \<lparr>Latency := 100000000, DownloadSize := Fin 200000, DownloadTime := 1000000000,
        DownloadSpeed := Fin 200000, UploadSize := Fin 100000, UploadTime := 1000000000,
        UploadSpeed := Fin 100000, ExtraURLConnectivity := True\<rparr>"

text \<open>A result with a download speed of 2 MiB/s.\<close>

definition fastResult :: Result where
  "fastResult = slowResult\<lparr>DownloadSize := Fin 2097152, DownloadSpeed := Fin 2097152\<rparr>"

text \<open>A proxy through which no request succeeds.\<close>

definition deadNet :: network where
  "deadNet w rq = Failed"

text \<open>
  Three auxiliary URLs of which the second is unreachable; every other request is
  answered with 1000 bytes.
\<close>

definition auxConfig :: Config where
  "auxConfig = slowConfig\<lparr>ExtraConnectURL := [''http://a'', ''http://b'', ''http://c'']\<rparr>"

definition auxNet :: network where
  "auxNet w rq =
     (case rq of
        GetDown n \<Rightarrow> Response 200 100000000 n False 1000000000
      | GetURL u \<Rightarrow> if u = ''http://b'' then Failed else Response 200 100000000 1000 False 200000000
      | PostUp n \<Rightarrow> Response 200 1000000000 n False 1000000000)"






text \<open>
  The default flags with one auxiliary URL, and runs through a proxy that delivers the
  whole download chunk in one second and an auxiliary page of \<open>page\<close> bytes in one
  second; \<open>rankedResult\<close> is the result of such a run.
\<close>

definition auxFlags :: Flags where
  "auxFlags = defaultFlags\<lparr>extraConnectURL := ''http://a''\<rparr>"

definition rankConfig :: "int \<Rightarrow> Config" where
  "rankConfig n = slowConfig\<lparr>DownloadSizeCfg := n, ExtraConnectURL := [''http://a'']\<rparr>"

definition rankNet :: "int \<Rightarrow> network" where
  "rankNet page w rq =
     (case rq of
        GetDown n \<Rightarrow> Response 200 100000000 n False 1000000000
      | GetURL u \<Rightarrow> Response 200 100000000 page False 1000000000
      | PostUp n \<Rightarrow> Response 200 1000000000 n False 1000000000)"

definition rankedResult :: "string \<Rightarrow> int \<Rightarrow> int \<Rightarrow> Result" where
  "rankedResult name n page =
     (newResult ''nodes'' name ''Trojan'' [])
       \<lparr>Latency := 100000000, DownloadSize := f64_of_int n, DownloadTime := 1000000000,
        DownloadSpeed := f64_of_int n, UploadSize := Fin 100000, UploadTime := 1000000000,
        UploadSpeed := Fin 100000, ExtraURLConnectivity := True,
        ExtraURLOpenSpeed := f64_of_int page\<rparr>"

section \<open>Auxiliary facts\<close>

subsection \<open>Arithmetic of the modelled Go values\<close>

lemma fmul_1024_twice: "fmul (fmul x (Fin 1024)) (Fin 1024) = bytes_per_second x"
  by (cases x) (simp_all add: bytes_per_second_def)

lemma packetLoss_value:
  "fmul (fdiv (f64_of_int f) (Fin 6)) (Fin 100) = Fin (real_of_int f / 6 * 100)"
  by (simp add: f64_of_int_def)

lemma fgt_irrefl: "\<not> fgt x x"
  by (cases x) simp_all

lemma fgt_trans: "fgt a b \<Longrightarrow> fgt b c \<Longrightarrow> fgt a c"
  by (cases a; cases b; cases c) simp_all

lemma fgt_incomparable: "a \<noteq> NaN \<Longrightarrow> b \<noteq> NaN \<Longrightarrow> \<not> fgt a b \<Longrightarrow> \<not> fgt b a \<Longrightarrow> a = b"
  by (cases a; cases b) simp_all

lemma fge_not_NaN: "fge x y \<Longrightarrow> x \<noteq> NaN"
  by (cases x) simp_all

lemma usable_speed_not_NaN: "isProxyUsable fl r \<Longrightarrow> DownloadSpeed r \<noteq> NaN"
  unfolding isProxyUsable_def using fge_not_NaN by blast

subsection \<open>Statistics never panic\<close>

lemma calculateLatencyStats_Inr:
  "\<exists>r. calculateLatencyStats ls f = Inr r \<and> packetLoss r = Fin (real_of_int f / 6 * 100)"
  by (cases ls) (simp_all add: calculateLatencyStats_def packetLoss_value idiv_def Let_def)


subsection \<open>The probe loops\<close>

lemma latencyLoop_inv:
  "latencyLoop net n (ls, f, w) = (ls', f', w') \<Longrightarrow>
     int (length ls') + f' = int (length ls) + f + int n \<and> f \<le> f' \<and>
     w' = w @ replicate n (GetDown 0)"
proof (induction n arbitrary: ls f w)
  case 0
  then show ?case by simp
next
  case (Suc n)
  show ?case
  proof (cases "net w (GetDown 0)")
    case Failed
    with Suc.prems have "latencyLoop net n (ls, f + 1, w @ [GetDown 0]) = (ls', f', w')"
      by simp
    from Suc.IH[OF this] show ?thesis by (simp add: replicate_app_Cons_same)
  next
    case (Response st t nb ce t')
    show ?thesis
    proof (cases "st = StatusOK")
      case True
      with Response Suc.prems
      have "latencyLoop net n (ls @ [t], f, w @ [GetDown 0]) = (ls', f', w')" by simp
      from Suc.IH[OF this] show ?thesis by (simp add: replicate_app_Cons_same)
    next
      case False
      with Response Suc.prems
      have "latencyLoop net n (ls, f + 1, w @ [GetDown 0]) = (ls', f', w')" by simp
      from Suc.IH[OF this] show ?thesis by (simp add: replicate_app_Cons_same)
    qed
  qed
qed

lemma extraProbeLoop_inv:
  "extraProbeLoop net url n (ls, f, tb, td, w) = (ls', f', tb', td', w') \<Longrightarrow>
     int (length ls') + f' = int (length ls) + f + int n \<and> f \<le> f' \<and>
     w' = w @ replicate n (GetURL url)"
proof (induction n arbitrary: ls f tb td w)
  case 0
  then show ?case by simp
next
  case (Suc n)
  show ?case
  proof (cases "net w (GetURL url)")
    case Failed
    with Suc.prems
    have "extraProbeLoop net url n (ls, f + 1, tb, td, w @ [GetURL url]) = (ls', f', tb', td', w')"
      by simp
    from Suc.IH[OF this] show ?thesis by (simp add: replicate_app_Cons_same)
  next
    case (Response st t nb ce t')
    show ?thesis
    proof (cases "st = StatusOK")
      case True
      with Response Suc.prems
      have "extraProbeLoop net url n (ls @ [t], f, tb + nb, td + t', w @ [GetURL url])
              = (ls', f', tb', td', w')" by simp
      from Suc.IH[OF this] show ?thesis by (simp add: replicate_app_Cons_same)
    next
      case False
      with Response Suc.prems
      have "extraProbeLoop net url n (ls, f + 1, tb, td, w @ [GetURL url]) = (ls', f', tb', td', w')"
        by simp
      from Suc.IH[OF this] show ?thesis by (simp add: replicate_app_Cons_same)
    qed
  qed
qed

lemma testLatency_eq:
  assumes "latencyLoop net 6 ([], 0, w) = (ls, f, w')"
  shows "\<exists>r. testLatency net w = Inr (r, w') \<and> calculateLatencyStats ls f = Inr r \<and>
           packetLoss r = Fin (real_of_int f / 6 * 100)"
proof -
  obtain r where r: "calculateLatencyStats ls f = Inr r"
      "packetLoss r = Fin (real_of_int f / 6 * 100)"
    using calculateLatencyStats_Inr by blast
  have "testLatency net w = Inr (r, w')" using assms r by (simp add: testLatency_def)
  with r show ?thesis by blast
qed

lemma testLatency_world:
  assumes "testLatency net w = Inr (r, w')"
  shows "w' = w @ replicate 6 (GetDown 0)"
proof -
  obtain ls f w1 where l: "latencyLoop net 6 ([], 0, w) = (ls, f, w1)"
    by (metis prod_cases3)
  from testLatency_eq[OF l] assms have "w1 = w'" by auto
  with latencyLoop_inv[OF l] show ?thesis by simp
qed

subsection \<open>The loop over the auxiliary URLs\<close>

lemma anyFullLoss_update:
  "feq (packetLoss v) (Fin 100) \<Longrightarrow> anyFullLoss (AList.update k v m)"
  by (induction m rule: anyFullLoss.induct) auto

lemma existConnectivityProblem_update:
  "feq (packetLoss v) (Fin 100) \<Longrightarrow> existConnectivityProblem (AList.update k v m)"
  by (cases m) (auto simp: existConnectivityProblem_def anyFullLoss_update)

lemma extraURLLoop_append:
  "extraURLLoop net pre (m, tb, td, w) = Inr (False, m0, tb0, td0, w0) \<Longrightarrow>
     extraURLLoop net (pre @ rest) (m, tb, td, w) = extraURLLoop net rest (m0, tb0, td0, w0)"
proof (induction pre arbitrary: m tb td w)
  case Nil
  then show ?case by simp
next
  case (Cons url pre)
  obtain ls f tb1 td1 w1
    where p: "extraProbeLoop net url 6 ([], 0, tb, td, w) = (ls, f, tb1, td1, w1)"
    by (metis prod_cases5)
  obtain r where r: "calculateLatencyStats ls f = Inr r"
    using calculateLatencyStats_Inr by blast
  show ?case
  proof (cases "feq (packetLoss r) (Fin 100)")
    case True
    with Cons.prems p r show ?thesis by simp
  next
    case False
    with Cons.prems p r
    have "extraURLLoop net pre (AList.update url r m, tb1, td1, w1) = Inr (False, m0, tb0, td0, w0)"
      by simp
    from Cons.IH[OF this] p r False show ?thesis by simp
  qed
qed

lemma extraURLLoop_world:
  "extraURLLoop net urls (m, tb, td, w) = Inr (False, m', tb', td', w') \<Longrightarrow>
     w' = w @ concat (map (\<lambda>x. replicate 6 (GetURL x)) urls)"
proof (induction urls arbitrary: m tb td w)
  case Nil
  then show ?case by simp
next
  case (Cons url urls)
  obtain ls f tb1 td1 w1
    where p: "extraProbeLoop net url 6 ([], 0, tb, td, w) = (ls, f, tb1, td1, w1)"
    by (metis prod_cases5)
  obtain r where r: "calculateLatencyStats ls f = Inr r"
    using calculateLatencyStats_Inr by blast
  have w1: "w1 = w @ replicate 6 (GetURL url)" using extraProbeLoop_inv[OF p] by simp
  show ?case
  proof (cases "feq (packetLoss r) (Fin 100)")
    case True
    with Cons.prems p r show ?thesis by simp
  next
    case False
    with Cons.prems p r
    have "extraURLLoop net urls (AList.update url r m, tb1, td1, w1) = Inr (False, m', tb', td', w')"
      by simp
    from Cons.IH[OF this] w1 show ?thesis by simp
  qed
qed

text \<open>
  The loop either runs through the whole list, and then no entry it added has a packet
  loss of 100, or it stops at the first URL whose probes report a packet loss of 100; it
  never panics.
\<close>

lemma anyFullLoss_update_elim:
  "anyFullLoss (AList.update k v m) \<Longrightarrow> feq (packetLoss v) (Fin 100) \<or> anyFullLoss m"
  by (induction m rule: anyFullLoss.induct) (auto split: if_splits)

lemma extraURLLoop_cases:
  "(\<exists>m' tb' td' w'. extraURLLoop net urls (m, tb, td, w) = Inr (False, m', tb', td', w') \<and>
      (anyFullLoss m' \<longrightarrow> anyFullLoss m)) \<or>
   (\<exists>pre u post m0 tb0 td0 w0 ls f tb' td' w2 r.
      urls = pre @ u # post \<and>
      extraURLLoop net pre (m, tb, td, w) = Inr (False, m0, tb0, td0, w0) \<and>
      extraProbeLoop net u 6 ([], 0, tb0, td0, w0) = (ls, f, tb', td', w2) \<and>
      calculateLatencyStats ls f = Inr r \<and> feq (packetLoss r) (Fin 100))"
proof (induction urls arbitrary: m tb td w)
  case Nil
  show ?case by simp
next
  case (Cons url urls)
  obtain ls f tb1 td1 w1
    where p: "extraProbeLoop net url 6 ([], 0, tb, td, w) = (ls, f, tb1, td1, w1)"
    by (metis prod_cases5)
  obtain r where r: "calculateLatencyStats ls f = Inr r"
    using calculateLatencyStats_Inr by blast
  show ?case
  proof (cases "feq (packetLoss r) (Fin 100)")
    case True
    have "url # urls = [] @ url # urls" by simp
    moreover have "extraURLLoop net [] (m, tb, td, w) = Inr (False, m, tb, td, w)" by simp
    ultimately show ?thesis using p r True by blast
  next
    case False
    have step: "\<And>us. extraURLLoop net (url # us) (m, tb, td, w) =
                  extraURLLoop net us (AList.update url r m, tb1, td1, w1)"
      using p r False by simp
    from Cons.IH[of "AList.update url r m" tb1 td1 w1]
    show ?thesis
    proof
      assume "\<exists>m' tb' td' w'. extraURLLoop net urls (AList.update url r m, tb1, td1, w1) =
                Inr (False, m', tb', td', w') \<and> (anyFullLoss m' \<longrightarrow> anyFullLoss (AList.update url r m))"
      then obtain m' tb' td' w'
        where e: "extraURLLoop net urls (AList.update url r m, tb1, td1, w1) = Inr (False, m', tb', td', w')"
          and l: "anyFullLoss m' \<longrightarrow> anyFullLoss (AList.update url r m)"
        by blast
      have "anyFullLoss m' \<longrightarrow> anyFullLoss m"
        using l anyFullLoss_update_elim False by blast
      with e step show ?thesis by auto
    next
      assume "\<exists>pre u post m0 tb0 td0 w0 ls f tb' td' w2 ra.
         urls = pre @ u # post \<and>
         extraURLLoop net pre (AList.update url r m, tb1, td1, w1) = Inr (False, m0, tb0, td0, w0) \<and>
         extraProbeLoop net u 6 ([], 0, tb0, td0, w0) = (ls, f, tb', td', w2) \<and>
         calculateLatencyStats ls f = Inr ra \<and> feq (packetLoss ra) (Fin 100)"
      then obtain pre u post m0 tb0 td0 w0 ls' f' tb' td' w2 ra
        where d: "urls = pre @ u # post"
          and e: "extraURLLoop net pre (AList.update url r m, tb1, td1, w1) = Inr (False, m0, tb0, td0, w0)"
          and rest: "extraProbeLoop net u 6 ([], 0, tb0, td0, w0) = (ls', f', tb', td', w2)"
            "calculateLatencyStats ls' f' = Inr ra" "feq (packetLoss ra) (Fin 100)"
        by blast
      have "url # urls = (url # pre) @ u # post" using d by simp
      moreover have "extraURLLoop net (url # pre) (m, tb, td, w) = Inr (False, m0, tb0, td0, w0)"
        using step e by simp
      ultimately show ?thesis using rest by blast
    qed
  qed
qed

lemma extraURLLoop_Inr: "\<exists>x. extraURLLoop net urls (m, tb, td, w) = Inr x"
proof -
  from extraURLLoop_cases[of net urls m tb td w] show ?thesis
  proof
    assume "\<exists>m' tb' td' w'. extraURLLoop net urls (m, tb, td, w) = Inr (False, m', tb', td', w') \<and>
      (anyFullLoss m' \<longrightarrow> anyFullLoss m)"
    then show ?thesis by blast
  next
    assume "\<exists>pre u post m0 tb0 td0 w0 ls f tb' td' w2 r.
      urls = pre @ u # post \<and>
      extraURLLoop net pre (m, tb, td, w) = Inr (False, m0, tb0, td0, w0) \<and>
      extraProbeLoop net u 6 ([], 0, tb0, td0, w0) = (ls, f, tb', td', w2) \<and>
      calculateLatencyStats ls f = Inr r \<and> feq (packetLoss r) (Fin 100)"
    then obtain pre u post m0 tb0 td0 w0 ls f tb' td' w2 r
      where d: "urls = pre @ u # post"
        and e: "extraURLLoop net pre (m, tb, td, w) = Inr (False, m0, tb0, td0, w0)"
        and rest: "extraProbeLoop net u 6 ([], 0, tb0, td0, w0) = (ls, f, tb', td', w2)"
          "calculateLatencyStats ls f = Inr r" "feq (packetLoss r) (Fin 100)"
      by blast
    have "extraURLLoop net urls (m, tb, td, w) = Inr (True, AList.update u r m0, tb', td', w2)"
      unfolding d extraURLLoop_append[OF e] using rest by simp
    then show ?thesis by blast
  qed
qed

lemma testExtraLatencyAndSpeed_Inr: "\<exists>x. testExtraLatencyAndSpeed config net w = Inr x"
proof (cases "0 < length (ExtraConnectURL config)")
  case True
  obtain x where x: "extraURLLoop net (ExtraConnectURL config) ([], 0, 0, w) = Inr x"
    using extraURLLoop_Inr by blast
  obtain ret m tb td w' where "x = (ret, m, tb, td, w')"
    by (cases x) auto
  with x have l:
    "extraURLLoop net (ExtraConnectURL config) ([], 0, 0, w) = Inr (ret, m, tb, td, w')"
    by simp
  show ?thesis using True l
    by (cases "testDownload net (GetURL (ExtraDownloadURL config)) w'")
       (simp add: testExtraLatencyAndSpeed_def Let_def)
next
  case False
  then show ?thesis
    by (cases "testDownload net (GetURL (ExtraDownloadURL config)) w")
       (simp add: testExtraLatencyAndSpeed_def Let_def)
qed

subsection \<open>The transfer probes of a phase\<close>



lemma testDownload_counts:
  "fst (testDownload net rq w) =
     (case net w rq of
        Failed \<Rightarrow> None
      | Response status t nb copyErr t' \<Rightarrow>
          if status = StatusOK then Some \<lparr>bytes = nb, duration = t'\<rparr> else None)"
  by (simp add: testDownload_def split: response.splits)



subsection \<open>The receiving loop sums over the successful outcomes\<close>

lemma successes_simps [simp]:
  "successes [] = {#}"
  "successes (None # rs) = successes rs"
  "successes (Some d # rs) = add_mset d (successes rs)"
  by (simp_all add: successes_def List.map_filter_simps)



lemma sumResults_eq:
  "sumResults rs (b, t, n) =
     (b + (\<Sum>r\<in>#successes rs. bytes r), t + (\<Sum>r\<in>#successes rs. duration r),
      n + int (size (successes rs)))"
  by (induction rs "(b, t, n)" arbitrary: b t n rule: sumResults.induct) simp_all

lemma summarise_eq:
  "summarise r ds us =
     Inr ((if successes ds = {#} then r
           else r\<lparr>DownloadSize := f64_of_int (\<Sum>x\<in>#successes ds. bytes x),
                  DownloadTime := tdiv (\<Sum>x\<in>#successes ds. duration x) (int (size (successes ds))),
                  DownloadSpeed := speed_spec (successes ds)\<rparr>)
          \<lparr>UploadSize :=
             (if successes us = {#} then UploadSize r
              else f64_of_int (\<Sum>x\<in>#successes us. bytes x)),
           UploadTime :=
             (if successes us = {#} then UploadTime r
              else tdiv (\<Sum>x\<in>#successes us. duration x) (int (size (successes us)))),
           UploadSpeed :=
             (if successes us = {#} then UploadSpeed r else speed_spec (successes us))\<rparr>)"
  by (simp add: summarise_def sumResults_eq idiv_def speed_spec_def)

subsection \<open>No panic with at least one connection\<close>

text \<open>
  With \<open>Concurrent\<close> positive, as \<open>New\<close> leaves it, no division of \<open>testProxy\<close> is by zero
  and the model returns a result for every network (the limit of the Go runtime on the
  capacity of a channel is not modelled); with \<open>Concurrent = 0\<close> a run that reaches the
  throughput phase panics.
\<close>

lemma throughput_Inr:
  "0 < Concurrent config \<Longrightarrow> \<exists>x. throughput config net r w = Inr x"
  by (simp add: throughput_def chunkSizes_def idiv_def summarise_eq split: prod.splits)

lemma testLatency_Inr: "\<exists>r w'. testLatency net w = Inr (r, w')"
proof -
  obtain ls f w' where "latencyLoop net 6 ([], 0, w) = (ls, f, w')" by (metis prod_cases3)
  from testLatency_eq[OF this] show ?thesis by blast
qed

lemma testProxy_Inr:
  assumes "0 < Concurrent config"
  shows "\<exists>x. testProxy config net fileName name ptype pconfig w = Inr x"
proof -
  obtain lr w1 where l: "testLatency net w = Inr (lr, w1)" using testLatency_Inr by blast
  obtain x where x: "testExtraLatencyAndSpeed config net w1 = Inr x"
    using testExtraLatencyAndSpeed_Inr by blast
  obtain m opn dl w2 where "x = ((m, opn, dl), w2)"
    by (cases x) auto
  with x have e: "testExtraLatencyAndSpeed config net w1 = Inr ((m, opn, dl), w2)"
    by simp
  show ?thesis
    using l e throughput_Inr[OF assms]
    by (simp add: testProxy_def Let_def split: option.splits)
qed

lemma testProxy_New_Inr:
  "\<exists>x. testProxy (New c) net fileName name ptype pconfig w = Inr x"
  by (rule testProxy_Inr) (simp add: New_def Let_def)

subsection \<open>The concrete runs, evaluated\<close>

lemma slowNet_latencyLoop:
  "latencyLoop slowNet 6 ([], 0, w) = (replicate 6 100000000, 0, w @ replicate 6 (GetDown 0))"
  by (simp add: eval_nat_numeral slowNet_def StatusOK_def)

lemma auxNet_latencyLoop:
  "latencyLoop auxNet 6 ([], 0, w) = (replicate 6 100000000, 0, w @ replicate 6 (GetDown 0))"
  by (simp add: eval_nat_numeral auxNet_def StatusOK_def)

lemma deadNet_latencyLoop:
  "latencyLoop deadNet 6 ([], 0, w) = ([], 6, w @ replicate 6 (GetDown 0))"
  by (simp add: eval_nat_numeral deadNet_def)

lemma steady_stats:
  "calculateLatencyStats (replicate 6 100000000) 0 =
     Inr \<lparr>avgLatency = 100000000, jitter = 0, packetLoss = Fin 0\<rparr>"
  by (simp add: eval_nat_numeral calculateLatencyStats_def idiv_def tdiv_def f64_of_int_def
      Duration_of_f64_def)

lemma slowNet_testLatency:
  "testLatency slowNet w =
     Inr (\<lparr>avgLatency = 100000000, jitter = 0, packetLoss = Fin 0\<rparr>, w @ replicate 6 (GetDown 0))"
  by (simp add: testLatency_def slowNet_latencyLoop steady_stats)

lemma auxNet_testLatency:
  "testLatency auxNet w =
     Inr (\<lparr>avgLatency = 100000000, jitter = 0, packetLoss = Fin 0\<rparr>, w @ replicate 6 (GetDown 0))"
  by (simp add: testLatency_def auxNet_latencyLoop steady_stats)

lemma deadNet_testLatency:
  "testLatency deadNet w =
     Inr (\<lparr>avgLatency = 0, jitter = 0, packetLoss = Fin 100\<rparr>, w @ replicate 6 (GetDown 0))"
  by (simp add: testLatency_def deadNet_latencyLoop calculateLatencyStats_def f64_of_int_def)

lemma slow_run:
  "testProxy slowConfig slowNet ''nodes'' ''hk1'' ''Trojan'' [] [] =
     Inr (slowResult, replicate 6 (GetDown 0) @ [GetDown 200000, PostUp 100000])"
  by (simp add: testProxy_def slowNet_testLatency testExtraLatencyAndSpeed_def slowConfig_def
      existConnectivityProblem_def throughput_def chunkSizes_def idiv_def tdiv_def
      testDownload_def testUpload_def slowNet_def StatusOK_def summarise_def f64_of_int_def
      Seconds_def slowResult_def newResult_def)

lemma zero_Concurrent_panics:
  "testProxy (slowConfig\<lparr>Concurrent := 0\<rparr>) slowNet ''nodes'' ''hk1'' ''Trojan'' [] [] =
     Inl DivideByZero"
  by (simp add: testProxy_def slowNet_testLatency testExtraLatencyAndSpeed_def slowConfig_def
      existConnectivityProblem_def throughput_def chunkSizes_def idiv_def)



lemma rankNet_testLatency:
  "testLatency (rankNet page) w =
     Inr (\<lparr>avgLatency = 100000000, jitter = 0, packetLoss = Fin 0\<rparr>, w @ replicate 6 (GetDown 0))"
proof -
  have "latencyLoop (rankNet page) 6 ([], 0, w) =
          (replicate 6 100000000, 0, w @ replicate 6 (GetDown 0))"
    by (simp add: eval_nat_numeral rankNet_def StatusOK_def)
  then show ?thesis by (simp add: testLatency_def steady_stats)
qed

lemma rank_run_a:
  "testProxy (rankConfig 10485760) (rankNet 209716) ''nodes'' ''ra'' ''Trojan'' [] [] =
     Inr (rankedResult ''ra'' 10485760 209716,
          replicate 6 (GetDown 0) @ replicate 6 (GetURL ''http://a'') @
          [GetDown 10485760, PostUp 100000])"
proof -
  have p: "extraProbeLoop (rankNet 209716) ''http://a'' 6 ([], 0, 0, 0, replicate 6 (GetDown 0)) =
             (replicate 6 100000000, 0, 1258296, 6000000000,
              replicate 6 (GetDown 0) @ replicate 6 (GetURL ''http://a''))"
    by (simp add: eval_nat_numeral rankNet_def StatusOK_def)
  show ?thesis
    by (simp add: testProxy_def rankNet_testLatency testExtraLatencyAndSpeed_def rankConfig_def
        slowConfig_def p steady_stats existConnectivityProblem_def throughput_def chunkSizes_def
        idiv_def tdiv_def testDownload_def testUpload_def rankNet_def StatusOK_def summarise_def
        f64_of_int_def Seconds_def rankedResult_def newResult_def)
qed

lemma rank_run_b:
  "testProxy (rankConfig 1048576) (rankNet 1048576) ''nodes'' ''rb'' ''Trojan'' [] [] =
     Inr (rankedResult ''rb'' 1048576 1048576,
          replicate 6 (GetDown 0) @ replicate 6 (GetURL ''http://a'') @
          [GetDown 1048576, PostUp 100000])"
proof -
  have p: "extraProbeLoop (rankNet 1048576) ''http://a'' 6 ([], 0, 0, 0, replicate 6 (GetDown 0)) =
             (replicate 6 100000000, 0, 6291456, 6000000000,
              replicate 6 (GetDown 0) @ replicate 6 (GetURL ''http://a''))"
    by (simp add: eval_nat_numeral rankNet_def StatusOK_def)
  show ?thesis
    by (simp add: testProxy_def rankNet_testLatency testExtraLatencyAndSpeed_def rankConfig_def
        slowConfig_def p steady_stats existConnectivityProblem_def throughput_def chunkSizes_def
        idiv_def tdiv_def testDownload_def testUpload_def rankNet_def StatusOK_def summarise_def
        f64_of_int_def Seconds_def rankedResult_def newResult_def)
qed

subsection \<open>The comparator of \<open>main\<close>\<close>

text \<open>
  On results that passed \<open>isProxyUsable\<close> the comparator is a strict weak ordering that
  puts the results \<open>isProxyGood\<close> accepts first and orders each group by greater download
  speed.
\<close>

lemma less_result_strict_weak_order:
  assumes "isProxyUsable fl a" and "isProxyUsable fl b" and "isProxyUsable fl c"
  shows "\<not> less_result fl a a \<and>
    (less_result fl a b \<and> less_result fl b c \<longrightarrow> less_result fl a c) \<and>
    (\<not> less_result fl a b \<and> \<not> less_result fl b a \<and> \<not> less_result fl b c \<and> \<not> less_result fl c b
       \<longrightarrow> \<not> less_result fl a c \<and> \<not> less_result fl c a) \<and>
    (isProxyGood fl a \<and> \<not> isProxyGood fl b \<longrightarrow> less_result fl a b \<and> \<not> less_result fl b a) \<and>
    (isProxyGood fl a = isProxyGood fl b \<longrightarrow>
       less_result fl a b = fgt (DownloadSpeed a) (DownloadSpeed b))"
proof -
  note nn = assms[THEN usable_speed_not_NaN]
  have irr: "\<not> less_result fl a a"
    by (simp add: less_result_def fgt_irrefl)
  have tr: "less_result fl a b \<and> less_result fl b c \<longrightarrow> less_result fl a c"
    unfolding less_result_def
    using fgt_trans[of "DownloadSpeed a" "DownloadSpeed b" "DownloadSpeed c"]
    by (auto split: if_splits)
  have inc: "\<not> less_result fl a b \<and> \<not> less_result fl b a \<and> \<not> less_result fl b c \<and>
      \<not> less_result fl c b \<longrightarrow> \<not> less_result fl a c \<and> \<not> less_result fl c a"
    unfolding less_result_def
    using fgt_incomparable[OF nn(1) nn(2)] fgt_incomparable[OF nn(2) nn(3)]
    by (auto split: if_splits)
  have grp: "isProxyGood fl a \<and> \<not> isProxyGood fl b \<longrightarrow>
      less_result fl a b \<and> \<not> less_result fl b a"
    by (simp add: less_result_def)
  have same: "isProxyGood fl a = isProxyGood fl b \<longrightarrow>
       less_result fl a b = fgt (DownloadSpeed a) (DownloadSpeed b)"
    by (simp add: less_result_def)
  from irr tr inc grp same show ?thesis by blast
qed

section \<open>The claims\<close>





text \<open>
  C2. When the primary latency prober reports a packet loss of 100, \<open>testProxy\<close> returns
  at once: the result is the fresh record with only the three latency fields written
  (no connectivity, no open speed, no auxiliary download speed, no throughput data), and
  the requests issued are the six requests of the latency prober and no other.
\<close>

theorem primary_full_loss_short_circuit:
  assumes "testLatency net w = Inr (lr, w1)" and "feq (packetLoss lr) (Fin 100)"
  shows "\<exists>res. testProxy config net fileName name ptype pconfig w = Inr (res, w1) \<and>
           w1 = w @ replicate 6 (GetDown 0) \<and>
           res = (newResult fileName name ptype pconfig)
                   \<lparr>Latency := avgLatency lr, Jitter := jitter lr, PacketLoss := packetLoss lr\<rparr> \<and>
           \<not> ExtraURLConnectivity res \<and> ExtraURLOpenSpeed res = Fin 0 \<and>
           ExtraDownloadSpeed res = Fin 0 \<and>
           DownloadSize res = Fin 0 \<and> DownloadTime res = 0 \<and> DownloadSpeed res = Fin 0 \<and>
           UploadSize res = Fin 0 \<and> UploadTime res = 0 \<and> UploadSpeed res = Fin 0"
  using assms testLatency_world[OF assms(1)] by (simp add: testProxy_def newResult_def)

theorem primary_full_loss_short_circuit_witness:
  "testLatency deadNet [] =
     Inr (\<lparr>avgLatency = 0, jitter = 0, packetLoss = Fin 100\<rparr>, replicate 6 (GetDown 0)) \<and>
   testProxy auxConfig deadNet ''nodes'' ''hk1'' ''Trojan'' [] [] =
     Inr ((newResult ''nodes'' ''hk1'' ''Trojan'' [])\<lparr>PacketLoss := Fin 100\<rparr>,
          replicate 6 (GetDown 0))"
proof -
  have t: "testLatency deadNet [] =
     Inr (\<lparr>avgLatency = 0, jitter = 0, packetLoss = Fin 100\<rparr>, replicate 6 (GetDown 0))"
    using deadNet_testLatency[of "[]"] by simp
  have f: "feq (packetLoss \<lparr>avgLatency = 0, jitter = 0, packetLoss = Fin 100\<rparr>) (Fin 100)"
    by simp
  from primary_full_loss_short_circuit[OF t f, of auxConfig "''nodes''" "''hk1''" "''Trojan''" "[]"] t
  show ?thesis by (auto simp: newResult_def)
qed

text \<open>
  C3. Let the list of auxiliary URLs be \<open>pre @ u # post\<close>, let the primary prober not
  short-circuit, let no URL of \<open>pre\<close> end the loop, and let the six probes of \<open>u\<close> give a
  packet loss of 100. Then \<open>testExtraLatencyAndSpeed\<close> returns the map with the entry of
  \<open>u\<close> and neither an open-speed nor a download result; the requests issued after the
  latency prober's are six for each URL of \<open>pre\<close> and six for \<open>u\<close>, so none for a URL of
  \<open>post\<close>, none for the auxiliary download and none of the throughput phase; and the
  result of \<open>testProxy\<close> has \<open>ExtraURLConnectivity = false\<close> and zero speeds.
\<close>

theorem auxiliary_short_circuit:
  assumes urls: "ExtraConnectURL config = pre @ u # post"
    and lat: "testLatency net w = Inr (lr, w1)" "\<not> feq (packetLoss lr) (Fin 100)"
    and pre: "extraURLLoop net pre ([], 0, 0, w1) = Inr (False, m0, tb0, td0, w0)"
    and probe: "extraProbeLoop net u 6 ([], 0, tb0, td0, w0) = (ls, f, tb', td', w2)"
    and stats: "calculateLatencyStats ls f = Inr r" "feq (packetLoss r) (Fin 100)"
  shows "testExtraLatencyAndSpeed config net w1 = Inr ((AList.update u r m0, None, None), w2) \<and>
         w2 = w @ replicate 6 (GetDown 0) @
                concat (map (\<lambda>x. replicate 6 (GetURL x)) (pre @ [u])) \<and>
         (\<exists>res. testProxy config net fileName name ptype pconfig w = Inr (res, w2) \<and>
            \<not> ExtraURLConnectivity res \<and> ExtraURLOpenSpeed res = Fin 0 \<and>
            ExtraDownloadSpeed res = Fin 0 \<and> DownloadSpeed res = Fin 0 \<and>
            UploadSpeed res = Fin 0)"
proof -
  have loop: "extraURLLoop net (ExtraConnectURL config) ([], 0, 0, w1) =
                Inr (True, AList.update u r m0, tb', td', w2)"
    unfolding urls extraURLLoop_append[OF pre] using probe stats by simp
  have ex: "testExtraLatencyAndSpeed config net w1 = Inr ((AList.update u r m0, None, None), w2)"
    using loop urls by (simp add: testExtraLatencyAndSpeed_def)
  have w0: "w0 = w1 @ concat (map (\<lambda>x. replicate 6 (GetURL x)) pre)"
    using extraURLLoop_world[OF pre] .
  have w2: "w2 = w @ replicate 6 (GetDown 0) @
                   concat (map (\<lambda>x. replicate 6 (GetURL x)) (pre @ [u]))"
    using extraProbeLoop_inv[OF probe] w0 testLatency_world[OF lat(1)] by simp
  have "testProxy config net fileName name ptype pconfig w =
          Inr ((newResult fileName name ptype pconfig)
                 \<lparr>Latency := avgLatency lr, Jitter := jitter lr, PacketLoss := packetLoss lr,
                  ExtraURLConnectivity := False\<rparr>, w2)"
    using lat ex existConnectivityProblem_update[OF stats(2)]
    by (simp add: testProxy_def)
  then show ?thesis using ex w2 by (simp add: newResult_def)
qed

theorem auxiliary_short_circuit_witness:
  "testProxy auxConfig auxNet ''nodes'' ''hk1'' ''Trojan'' [] [] =
     Inr ((newResult ''nodes'' ''hk1'' ''Trojan'' [])\<lparr>Latency := 100000000\<rparr>,
          replicate 6 (GetDown 0) @ replicate 6 (GetURL ''http://a'') @
          replicate 6 (GetURL ''http://b''))"
proof -
  let ?ra = "\<lparr>avgLatency = 100000000, jitter = 0, packetLoss = Fin 0\<rparr>"
  let ?rb = "\<lparr>avgLatency = 0, jitter = 0, packetLoss = Fin 100\<rparr>"
  let ?w1 = "replicate 6 (GetDown 0)"
  let ?w0 = "?w1 @ replicate 6 (GetURL ''http://a'')"
  let ?w2 = "?w0 @ replicate 6 (GetURL ''http://b'')"
  have urls: "ExtraConnectURL auxConfig = [''http://a''] @ ''http://b'' # [''http://c'']"
    by (simp add: auxConfig_def)
  have lat: "testLatency auxNet [] = Inr (?ra, ?w1)"
    using auxNet_testLatency[of "[]"] by simp
  have nf: "\<not> feq (packetLoss ?ra) (Fin 100)"
    by simp
  have pa: "extraProbeLoop auxNet ''http://a'' 6 ([], 0, 0, 0, ?w1) =
              (replicate 6 100000000, 0, 6000, 1200000000, ?w0)"
    by (simp add: eval_nat_numeral auxNet_def StatusOK_def)
  have pre: "extraURLLoop auxNet [''http://a''] ([], 0, 0, ?w1) =
               Inr (False, [(''http://a'', ?ra)], 6000, 1200000000, ?w0)"
    by (simp add: pa steady_stats)
  have probe: "extraProbeLoop auxNet ''http://b'' 6 ([], 0, 6000, 1200000000, ?w0) =
                 ([], 6, 6000, 1200000000, ?w2)"
    by (simp add: eval_nat_numeral auxNet_def)
  have stats: "calculateLatencyStats [] 6 = Inr ?rb"
    by (simp add: calculateLatencyStats_def f64_of_int_def)
  have full: "feq (packetLoss ?rb) (Fin 100)"
    by simp
  from auxiliary_short_circuit[OF urls lat nf pre probe stats full,
      of "''nodes''" "''hk1''" "''Trojan''" "[]"]
  obtain res where res: "testProxy auxConfig auxNet ''nodes'' ''hk1'' ''Trojan'' [] [] = Inr (res, ?w2)"
    by blast
  have "testProxy auxConfig auxNet ''nodes'' ''hk1'' ''Trojan'' [] [] =
          Inr ((newResult ''nodes'' ''hk1'' ''Trojan'' [])\<lparr>Latency := 100000000\<rparr>, ?w2)"
    by (simp add: testProxy_def lat testExtraLatencyAndSpeed_def auxConfig_def slowConfig_def
        pa steady_stats probe stats existConnectivityProblem_def newResult_def)
  with res show ?thesis by simp
qed

text \<open>
  C4. \<open>isProxyUsable\<close> is the predicate of the specification: latency at most the
  max-latency threshold or that threshold zero, auxiliary connectivity, auxiliary open
  speed at least the open-speed threshold or no auxiliary URL configured, download speed
  at least the min-speed threshold, auxiliary download speed at least the min-speed
  threshold or no auxiliary download URL configured, every threshold converted from
  MB/s to bytes per second.
\<close>

theorem isProxyUsable_refines_spec: "isProxyUsable fl r = usable_spec fl r"
  by (simp add: isProxyUsable_def usable_spec_def fmul_1024_twice)

theorem isProxyUsable_refines_spec_witness:
  "isProxyUsable defaultFlags fastResult \<and> usable_spec defaultFlags fastResult \<and>
   \<not> isProxyUsable defaultFlags (fastResult\<lparr>DownloadSpeed := Fin 100000\<rparr>) \<and>
   \<not> usable_spec defaultFlags (fastResult\<lparr>DownloadSpeed := Fin 100000\<rparr>)"
  using isProxyUsable_refines_spec[of defaultFlags fastResult]
    isProxyUsable_refines_spec[of defaultFlags "fastResult\<lparr>DownloadSpeed := Fin 100000\<rparr>"]
  by (simp add: usable_spec_def defaultFlags_def fastResult_def slowResult_def newResult_def
      bytes_per_second_def)

text \<open>
  C5. The claim is that \<open>isProxyGood\<close> is the predicate \<open>good\<close> of the specification with
  every MB/s threshold converted to bytes per second as in \<open>isProxyUsable\<close>. Both copies
  of \<open>isProxyGood\<close> compare the speeds, which are in bytes per second, with the
  unconverted thresholds. The run \<open>slowConfig\<close>, \<open>slowNet\<close> gives a result with a download
  speed of 200000 bytes per second, below the good-download threshold of 0.5 MB/s, which
  both copies classify as good.
\<close>

theorem isProxyGood_unit_mismatch:
  "testProxy slowConfig slowNet ''nodes'' ''hk1'' ''Trojan'' [] [] =
     Inr (slowResult, replicate 6 (GetDown 0) @ [GetDown 200000, PostUp 100000]) \<and>
   DownloadSpeed slowResult = Fin 200000 \<and>
   bytes_per_second (goodDownloadSpeedThreshold defaultFlags) = Fin 524288 \<and>
   isProxyGood defaultFlags slowResult \<and> isProxyGood_part000 defaultFlags slowResult \<and>
   \<not> good_spec defaultFlags slowResult"
  using slow_run
  by (simp add: isProxyGood_def isProxyGood_part000_def isProxyUsable_def good_spec_def
      usable_spec_def defaultFlags_def slowResult_def newResult_def bytes_per_second_def)

text \<open>
  C6. Every result that \<open>isProxyGood\<close> accepts is accepted by \<open>isProxyUsable\<close>, for every
  setting of the flags; so it is for the second copy of \<open>isProxyGood\<close>.
\<close>

theorem good_implies_usable:
  "(isProxyGood fl r \<longrightarrow> isProxyUsable fl r) \<and> (isProxyGood_part000 fl r \<longrightarrow> isProxyUsable fl r)"
  by (simp add: isProxyGood_def isProxyGood_part000_def)

theorem good_implies_usable_witness:
  "isProxyGood defaultFlags fastResult \<and> isProxyGood_part000 defaultFlags fastResult \<and>
   isProxyUsable defaultFlags fastResult"
proof -
  have g: "isProxyGood defaultFlags fastResult" "isProxyGood_part000 defaultFlags fastResult"
    by (simp_all add: isProxyGood_def isProxyGood_part000_def isProxyUsable_def defaultFlags_def
        fastResult_def slowResult_def newResult_def)
  from good_implies_usable[of defaultFlags fastResult] g show ?thesis by simp
qed

text \<open>
  C7. In every run of the latency prober the number of failed samples is between 0 and 6,
  the successful samples are the remaining ones of the 6, and the packet loss reported is
  the finite value \<open>failedPings / 6 * 100\<close>, between 0 and 100. For every number of failed
  samples from 0 to 6 \<open>calculateLatencyStats\<close> gives that percentage, within 0 and 100;
  3 failed samples give 50.
\<close>

theorem packet_loss_percentage:
  assumes "latencyLoop net 6 ([], 0, w) = (latencies, failedPings, w')"
  shows "0 \<le> failedPings \<and> failedPings \<le> 6 \<and> int (length latencies) = 6 - failedPings \<and>
         (\<exists>r x. testLatency net w = Inr (r, w') \<and> packetLoss r = Fin x \<and>
            x = real_of_int failedPings / 6 * 100 \<and> 0 \<le> x \<and> x \<le> 100) \<and>
         (0 \<le> g \<and> g \<le> 6 \<longrightarrow>
            (\<exists>r x. calculateLatencyStats ls g = Inr r \<and> packetLoss r = Fin x \<and>
               x = real_of_int g / 6 * 100 \<and> 0 \<le> x \<and> x \<le> 100)) \<and>
         (\<exists>r. calculateLatencyStats ls 3 = Inr r \<and> packetLoss r = Fin 50)"
proof -
  from latencyLoop_inv[OF assms]
  have n: "0 \<le> failedPings" "failedPings \<le> 6" "int (length latencies) = 6 - failedPings"
    by simp_all
  obtain r where r: "testLatency net w = Inr (r, w')"
      "packetLoss r = Fin (real_of_int failedPings / 6 * 100)"
    using testLatency_eq[OF assms] by blast
  have lo: "0 \<le> real_of_int failedPings / 6 * 100" using n(1) by simp
  have hi: "real_of_int failedPings / 6 * 100 \<le> 100" using n(2) by simp
  from r lo hi
  have a: "\<exists>r x. testLatency net w = Inr (r, w') \<and> packetLoss r = Fin x \<and>
            x = real_of_int failedPings / 6 * 100 \<and> 0 \<le> x \<and> x \<le> 100"
    by blast
  obtain rg where rg: "calculateLatencyStats ls g = Inr rg"
      "packetLoss rg = Fin (real_of_int g / 6 * 100)"
    using calculateLatencyStats_Inr by blast
  have b: "0 \<le> g \<and> g \<le> 6 \<longrightarrow>
            (\<exists>r x. calculateLatencyStats ls g = Inr r \<and> packetLoss r = Fin x \<and>
               x = real_of_int g / 6 * 100 \<and> 0 \<le> x \<and> x \<le> 100)"
  proof
    assume g: "0 \<le> g \<and> g \<le> 6"
    then have "0 \<le> real_of_int g / 6 * 100" "real_of_int g / 6 * 100 \<le> 100" by simp_all
    with rg show "\<exists>r x. calculateLatencyStats ls g = Inr r \<and> packetLoss r = Fin x \<and>
               x = real_of_int g / 6 * 100 \<and> 0 \<le> x \<and> x \<le> 100"
      by blast
  qed
  obtain r3 where r3: "calculateLatencyStats ls 3 = Inr r3"
      "packetLoss r3 = Fin (real_of_int 3 / 6 * 100)"
    using calculateLatencyStats_Inr by blast
  have c: "\<exists>r. calculateLatencyStats ls 3 = Inr r \<and> packetLoss r = Fin 50"
    using r3 by simp
  from n a b c show ?thesis by blast
qed

theorem packet_loss_percentage_witness:
  "latencyLoop deadNet 6 ([], 0, []) = ([], 6, replicate 6 (GetDown 0)) \<and>
   (\<exists>r. testLatency deadNet [] = Inr (r, replicate 6 (GetDown 0)) \<and> packetLoss r = Fin 100) \<and>
   (\<exists>r. calculateLatencyStats [100000000, 120000000] 4 = Inr r \<and> packetLoss r = Fin (200 / 3))"
proof -
  have l: "latencyLoop deadNet 6 ([], 0, []) = ([], 6, replicate 6 (GetDown 0))"
    using deadNet_latencyLoop[of "[]"] by simp
  from packet_loss_percentage[OF l, of 4 "[100000000, 120000000]"] l
  show ?thesis by auto
qed


text \<open>
  C9. The claim is that results that are good precede results that are not. The comparator
  groups by \<open>isProxyGood\<close>, which compares speeds in bytes per second with the unconverted
  MB/s thresholds (the defect of C5). With the default flags and one auxiliary URL, the
  run \<open>ra\<close> has an open speed of 209716 bytes per second, below the good-open-speed
  threshold of 0.5 MB/s, and the run \<open>rb\<close> reaches every good threshold; both pass
  \<open>isProxyUsable\<close>, \<open>isProxyGood\<close> accepts both, and the comparator puts \<open>ra\<close>, which has the
  greater download speed, before \<open>rb\<close>.
\<close>

theorem ranking_misplaces_good_result:
  "testProxy (rankConfig 10485760) (rankNet 209716) ''nodes'' ''ra'' ''Trojan'' [] [] =
     Inr (rankedResult ''ra'' 10485760 209716,
          replicate 6 (GetDown 0) @ replicate 6 (GetURL ''http://a'') @
          [GetDown 10485760, PostUp 100000]) \<and>
   testProxy (rankConfig 1048576) (rankNet 1048576) ''nodes'' ''rb'' ''Trojan'' [] [] =
     Inr (rankedResult ''rb'' 1048576 1048576,
          replicate 6 (GetDown 0) @ replicate 6 (GetURL ''http://a'') @
          [GetDown 1048576, PostUp 100000]) \<and>
   isProxyUsable auxFlags (rankedResult ''ra'' 10485760 209716) \<and>
   isProxyUsable auxFlags (rankedResult ''rb'' 1048576 1048576) \<and>
   \<not> good_spec auxFlags (rankedResult ''ra'' 10485760 209716) \<and>
   good_spec auxFlags (rankedResult ''rb'' 1048576 1048576) \<and>
   isProxyGood auxFlags (rankedResult ''ra'' 10485760 209716) \<and>
   isProxyGood auxFlags (rankedResult ''rb'' 1048576 1048576) \<and>
   less_result auxFlags (rankedResult ''ra'' 10485760 209716) (rankedResult ''rb'' 1048576 1048576) \<and>
   \<not> less_result auxFlags (rankedResult ''rb'' 1048576 1048576) (rankedResult ''ra'' 10485760 209716)"
  using rank_run_a rank_run_b
  by (simp add: less_result_def isProxyGood_def isProxyUsable_def good_spec_def usable_spec_def
      auxFlags_def defaultFlags_def rankedResult_def newResult_def bytes_per_second_def
      f64_of_int_def)

text \<open>
  C10. For every configuration, \<open>New\<close> leaves \<open>Concurrent\<close> at least 1 and both sizes
  positive, replacing a non-positive value by 1, 100 MiB and 10 MiB and keeping every
  other value; on the configuration that \<open>New\<close> returns, the capacity of the channel is
  not negative and the two divisions at the head of the throughput phase do not divide
  by zero. (The limit of the Go runtime on the capacity of a channel is not modelled.)
\<close>

theorem New_makes_chunk_sizes_safe:
  "Concurrent (New c) = (if Concurrent c \<le> 0 then 1 else Concurrent c) \<and>
   DownloadSizeCfg (New c) =
     (if DownloadSizeCfg c \<le> 0 then 100 * 1024 * 1024 else DownloadSizeCfg c) \<and>
   UploadSizeCfg (New c) =
     (if UploadSizeCfg c \<le> 0 then 10 * 1024 * 1024 else UploadSizeCfg c) \<and>
   1 \<le> Concurrent (New c) \<and> 0 < DownloadSizeCfg (New c) \<and> 0 < UploadSizeCfg (New c) \<and>
   chunkSizes (New c) =
     Inr (tdiv (DownloadSizeCfg (New c)) (Concurrent (New c)),
          tdiv (UploadSizeCfg (New c)) (Concurrent (New c)))"
  by (simp add: New_def chunkSizes_def idiv_def Let_def)

theorem New_makes_chunk_sizes_safe_witness:
  "chunkSizes (slowConfig\<lparr>Concurrent := 0, DownloadSizeCfg := - 5\<rparr>) = Inl DivideByZero \<and>
   chunkSizes (New (slowConfig\<lparr>Concurrent := 0, DownloadSizeCfg := - 5\<rparr>)) =
     Inr (104857600, 100000)"
  using New_makes_chunk_sizes_safe[of "slowConfig\<lparr>Concurrent := 0, DownloadSizeCfg := - 5\<rparr>"]
  by (simp add: chunkSizes_def idiv_def tdiv_def slowConfig_def)

end
